theory Spec2Isabelle
  imports Main "HOL-Library.Word" "HOL-Library.Sublist"
begin

section \<open>Shared vocabulary\<close>

text \<open>
  A Go \<^verbatim>\<open>error\<close> is represented by the message it carries: \<^verbatim>\<open>errors.New(s)\<close> is
  \<open>s\<close>, and \<^verbatim>\<open>fmt.Errorf("prefix: %w", err)\<close> is the prefix followed by the message
  of \<open>err\<close>.
\<close>

type_synonym error = string

text \<open>
  Values of Go's \<^verbatim>\<open>any\<close>. The generic parameters of the function tool are erased into
  the same universe. \<open>AnyNil\<close> is the nil interface, \<open>AnyStrings\<close> a \<^verbatim>\<open>[]string\<close>,
  \<open>AnySlice\<close> a \<^verbatim>\<open>[]any\<close>, \<open>AnyMap\<close> a \<^verbatim>\<open>map[string]any\<close> and \<open>AnyStruct\<close> a value
  of a named struct type with its fields.
\<close>

datatype any =
    AnyNil
  | AnyBool bool
  | AnyInt int
  | AnyString string
  | AnyStrings "string list"
  | AnySlice "any list"
  | AnyMap "string \<Rightarrow> any option"
  | AnyStruct string "(string \<times> any) list"

text \<open>The verb \<^verbatim>\<open>%T\<close> of package fmt: the dynamic type of the value.\<close>

fun goTypeName :: "any \<Rightarrow> string" where
  "goTypeName AnyNil = ''<nil>''"
| "goTypeName (AnyBool _) = ''bool''"
| "goTypeName (AnyInt _) = ''int''"
| "goTypeName (AnyString _) = ''string''"
| "goTypeName (AnyStrings _) = ''[]string''"
| "goTypeName (AnySlice _) = ''[]interface {}''"
| "goTypeName (AnyMap _) = ''map[string]interface {}''"
| "goTypeName (AnyStruct tname _) = tname"

text \<open>A panic of the Go runtime (here: a nil pointer dereference) against a normal return.\<close>

datatype 'a exec = Panic | Return 'a

subsection \<open>The canonical conversation model (package genai, package model)\<close>

record genai_FunctionCall =
  CallName :: string
  Args :: "string \<Rightarrow> any option"

record genai_FunctionResponse =
  Name :: string
  Response :: "string \<Rightarrow> any option"

text \<open>
  \<^verbatim>\<open>genai.Part\<close> is a struct of optional variants; pointer fields are options,
  \<open>None\<close> the nil pointer. \<open>InlineData\<close> stands for a blob (MIME type and bytes).
\<close>

record genai_Part =
  Text :: string
  FunctionCall :: "genai_FunctionCall option"
  FunctionResponse :: "genai_FunctionResponse option"
  InlineData :: "(string \<times> string) option"

record genai_Content =
  Parts :: "genai_Part option list"
  Role :: string

definition RoleUser :: string where
  "RoleUser = ''user''"

definition RoleModel :: string where
  "RoleModel = ''model''"

definition NewPartFromText :: "string \<Rightarrow> genai_Part" where
  "NewPartFromText text =
     \<lparr>Text = text, FunctionCall = None, FunctionResponse = None, InlineData = None\<rparr>"

text \<open>\<^verbatim>\<open>genai.NewContentFromText\<close>: an empty role defaults to the user role.\<close>

definition NewContentFromText :: "string \<Rightarrow> string \<Rightarrow> genai_Content" where
  "NewContentFromText text role =
     \<lparr>Parts = [Some (NewPartFromText text)],
      Role = (if role = '''' then RoleUser else role)\<rparr>"

text \<open>
  IEEE floating-point values. The configuration knobs are only copied (the widening
  \<^verbatim>\<open>float64(x)\<close> of a \<^verbatim>\<open>float32\<close> is exact), so the values stay opaque.
\<close>

typedecl ieee_float

record genai_GenerateContentConfig =
  Temperature :: "ieee_float option"
  TopP :: "ieee_float option"
  TopK :: "ieee_float option"
  MaxOutputTokens :: "32 word"
  StopSequences :: "string list"
  CandidateCount :: "32 word"
  FrequencyPenalty :: "ieee_float option"
  PresencePenalty :: "ieee_float option"
  ResponseLogprobs :: bool
  Logprobs :: "32 word option"
  SystemInstruction :: "genai_Content option"
  ResponseMIMEType :: string

record LLMRequest =
  Model :: string
  Contents :: "genai_Content option list"
  Config :: "genai_GenerateContentConfig option"

section \<open>Provider request translator (model/openai/openai.go)\<close>

datatype ChatCompletionMessageParamUnion =
    UserMessage string
  | AssistantMessage string
  | SystemMessage string
  | DeveloperMessage string

record ChatCompletionNewParams =
  ParamsModel :: string
  Messages :: "ChatCompletionMessageParamUnion list"
  ParamsTemperature :: "ieee_float option"
  ParamsTopP :: "ieee_float option"
  MaxTokens :: "64 word option"
  Stop :: "string list option"
  ParamsN :: "64 word option"
  ParamsFrequencyPenalty :: "ieee_float option"
  ParamsPresencePenalty :: "ieee_float option"
  TopLogprobs :: "64 word option"
  StreamOptionsIncludeUsage :: "bool option"

subsection \<open>maybeAppendUserContent\<close>

definition maybeAppendUserContent :: "LLMRequest \<Rightarrow> LLMRequest" where
  "maybeAppendUserContent req =
     (let req1 =
        (if length (Contents req) = 0
         then req\<lparr>Contents := Contents req @
                [Some (NewContentFromText
                  ''Handle the requests as specified in the System Instruction.'' ''user'')]\<rparr>
         else req)
      in case last (Contents req1) of
           None \<Rightarrow> req1
         | Some lastc \<Rightarrow>
             if Role lastc \<noteq> ''user''
             then req1\<lparr>Contents := Contents req1 @
                    [Some (NewContentFromText
                      ''Continue processing previous requests as instructed. Exit or provide a summary if no more outputs are needed.''
                      ''user'')]\<rparr>
             else req1)"

subsection \<open>newMessages, covertContents, covertSystemMessage\<close>

text \<open>The \<^verbatim>\<open>switch role\<close> of \<^verbatim>\<open>newMessages\<close>; \<open>None\<close> is the \<^verbatim>\<open>default\<close> branch.\<close>

definition msgFunc :: "string \<Rightarrow> (string \<Rightarrow> ChatCompletionMessageParamUnion) option" where
  "msgFunc role =
     (if role = '''' \<or> role = RoleUser then Some UserMessage
      else if role = RoleModel then Some AssistantMessage
      else if role = ''system'' then Some SystemMessage
      else if role = ''developer'' then Some DeveloperMessage
      else None)"

text \<open>\<open>None\<close> is the nil slice returned for an unknown role.\<close>

definition newMessages ::
  "string \<Rightarrow> string list \<Rightarrow> ChatCompletionMessageParamUnion list option" where
  "newMessages role txts =
     (case msgFunc role of
        None \<Rightarrow> None
      | Some f \<Rightarrow> Some (map f txts))"

text \<open>The variables captured by the closure \<^verbatim>\<open>flushText\<close>.\<close>

record covert_state =
  messages :: "ChatCompletionMessageParamUnion list"
  texts :: "string list"
  curRole :: string

definition flushText :: "covert_state \<Rightarrow> covert_state" where
  "flushText st =
     (if length (texts st) = 0 then st
      else case newMessages (curRole st) (texts st) of
             None \<Rightarrow> st
           | Some msg \<Rightarrow> st\<lparr>messages := messages st @ msg, texts := []\<rparr>)"

text \<open>The inner loop over the Parts of one turn.\<close>

fun appendTexts :: "genai_Part option list \<Rightarrow> string list \<Rightarrow> string list" where
  "appendTexts [] txts = txts"
| "appendTexts (None # ps) txts = appendTexts ps txts"
| "appendTexts (Some part # ps) txts =
     (if Text part \<noteq> '''' then appendTexts ps (txts @ [Text part])
      else appendTexts ps txts)"

text \<open>The outer loop over the turns.\<close>

fun covertLoop :: "genai_Content option list \<Rightarrow> covert_state \<Rightarrow> covert_state" where
  "covertLoop [] st = st"
| "covertLoop (None # cs) st = covertLoop cs st"
| "covertLoop (Some content # cs) st =
     (if length (Parts content) = 0 then covertLoop cs st
      else covertLoop cs
             (flushText (st\<lparr>curRole := Role content,
                            texts := appendTexts (Parts content) (texts st)\<rparr>)))"

definition covertContents ::
  "genai_Content option list \<Rightarrow> ChatCompletionMessageParamUnion list" where
  "covertContents contents =
     messages (covertLoop contents \<lparr>messages = [], texts = [], curRole = ''''\<rparr>)"

fun systemTexts :: "genai_Part option list \<Rightarrow> ChatCompletionMessageParamUnion list" where
  "systemTexts [] = []"
| "systemTexts (None # ps) = systemTexts ps"
| "systemTexts (Some part # ps) =
     (if Text part \<noteq> '''' then SystemMessage (Text part) # systemTexts ps
      else systemTexts ps)"

definition covertSystemMessage ::
  "genai_Content option \<Rightarrow> ChatCompletionMessageParamUnion list" where
  "covertSystemMessage systemInstruction =
     (case systemInstruction of
        None \<Rightarrow> []
      | Some si \<Rightarrow> if length (Parts si) = 0 then [] else systemTexts (Parts si))"

subsection \<open>applyGenerationConfig, LLMRequest2ChatCompletionNewParams\<close>

definition applyGenerationConfig ::
  "ChatCompletionNewParams \<Rightarrow> genai_GenerateContentConfig option
     \<Rightarrow> error + ChatCompletionNewParams" where
  "applyGenerationConfig params config =
     (case config of
        None \<Rightarrow> Inr params
      | Some cfg \<Rightarrow>
          (let p1 = (case Temperature cfg of None \<Rightarrow> params
                     | Some t \<Rightarrow> params\<lparr>ParamsTemperature := Some t\<rparr>);
               p2 = (case TopP cfg of None \<Rightarrow> p1 | Some t \<Rightarrow> p1\<lparr>ParamsTopP := Some t\<rparr>)
           in if TopK cfg \<noteq> None then Inl ''top_k is not supported''
              else
               (let p3 = (if 0 <s MaxOutputTokens cfg
                          then p2\<lparr>MaxTokens := Some (scast (MaxOutputTokens cfg))\<rparr> else p2);
                    p4 = (if length (StopSequences cfg) > 0
                          then p3\<lparr>Stop := Some (StopSequences cfg)\<rparr> else p3);
                    p5 = (if 1 <s CandidateCount cfg
                          then p4\<lparr>ParamsN := Some (scast (CandidateCount cfg))\<rparr> else p4);
                    p6 = (case FrequencyPenalty cfg of None \<Rightarrow> p5
                          | Some t \<Rightarrow> p5\<lparr>ParamsFrequencyPenalty := Some t\<rparr>);
                    p7 = (case PresencePenalty cfg of None \<Rightarrow> p6
                          | Some t \<Rightarrow> p6\<lparr>ParamsPresencePenalty := Some t\<rparr>);
                    p8 = (if ResponseLogprobs cfg
                          then (case Logprobs cfg of
                                  Some l \<Rightarrow> p7\<lparr>TopLogprobs := Some (scast l)\<rparr>
                                | None \<Rightarrow> p7\<lparr>TopLogprobs := Some 1\<rparr>)
                          else p7);
                    p9 = (case SystemInstruction cfg of
                            None \<Rightarrow> p8
                          | Some si \<Rightarrow>
                              p8\<lparr>Messages := Messages p8 @ covertSystemMessage (Some si)\<rparr>)
                in if ResponseMIMEType cfg \<noteq> '''' \<and> ResponseMIMEType cfg \<noteq> ''text/plain''
                   then Inl ''response_mime_type is not supported''
                   else Inr p9)))"

definition newParams :: "string \<Rightarrow> ChatCompletionNewParams" where
  "newParams m =
     \<lparr>ParamsModel = m, Messages = [], ParamsTemperature = None, ParamsTopP = None,
      MaxTokens = None, Stop = None, ParamsN = None, ParamsFrequencyPenalty = None,
      ParamsPresencePenalty = None, TopLogprobs = None, StreamOptionsIncludeUsage = None\<rparr>"

definition LLMRequest2ChatCompletionNewParams ::
  "LLMRequest \<Rightarrow> error + ChatCompletionNewParams" where
  "LLMRequest2ChatCompletionNewParams req =
     (case applyGenerationConfig (newParams (Model req)) (Config req) of
        Inl err \<Rightarrow> Inl err
      | Inr params \<Rightarrow>
          Inr (params\<lparr>Messages := Messages params @ covertContents (Contents req)\<rparr>))"

section \<open>Provider response translator, streaming mode (model/openai/openai.go)\<close>

record CompletionUsage =
  PromptTokens :: "64 word"
  CompletionTokens :: "64 word"
  TotalTokens :: "64 word"
  ReasoningTokens :: "64 word"

record ChatCompletionChunkChoice =
  DeltaContent :: string
  ChoiceFinishReason :: string

text \<open>\<open>UsageValid\<close> is \<^verbatim>\<open>chunk.JSON.Usage.Valid()\<close>.\<close>

record ChatCompletionChunk =
  Choices :: "ChatCompletionChunkChoice list"
  Usage :: CompletionUsage
  UsageValid :: bool

record genai_UsageMetadata =
  PromptTokenCount :: "32 word"
  CandidatesTokenCount :: "32 word"
  TotalTokenCount :: "32 word"
  ThoughtsTokenCount :: "32 word"

text \<open>
  \<^verbatim>\<open>genai.FinishReason\<close> is a string type; its zero value, the empty string, is the
  unset finish reason.
\<close>

definition FinishReasonStop :: string where
  "FinishReasonStop = ''STOP''"

definition FinishReasonMaxTokens :: string where
  "FinishReasonMaxTokens = ''MAX_TOKENS''"

definition FinishReasonSafety :: string where
  "FinishReasonSafety = ''SAFETY''"

record LLMResponse =
  Content :: "genai_Content option"
  UsageMetadata :: "genai_UsageMetadata option"
  FinishReason :: string
  Partial :: bool
  TurnComplete :: bool
  ErrorCode :: string
  ErrorMessage :: string

text \<open>The zero value \<^verbatim>\<open>model.LLMResponse{}\<close>.\<close>

definition emptyResponse :: LLMResponse where
  "emptyResponse =
     \<lparr>Content = None, UsageMetadata = None, FinishReason = '''', Partial = False,
      TurnComplete = False, ErrorCode = '''', ErrorMessage = ''''\<rparr>"

text \<open>The conversion \<^verbatim>\<open>int32(x)\<close> of an \<^verbatim>\<open>int64\<close> keeps the low 32 bits.\<close>

definition convertUsage :: "CompletionUsage \<Rightarrow> genai_UsageMetadata" where
  "convertUsage usage =
     \<lparr>PromptTokenCount = ucast (PromptTokens usage),
      CandidatesTokenCount = ucast (CompletionTokens usage),
      TotalTokenCount = ucast (TotalTokens usage),
      ThoughtsTokenCount = ucast (ReasoningTokens usage)\<rparr>"

definition finishReason :: "string \<Rightarrow> string" where
  "finishReason reason =
     (if reason = ''stop'' then FinishReasonStop
      else if reason = ''length'' then FinishReasonMaxTokens
      else if reason = ''tool_calls'' then FinishReasonStop
      else if reason = ''content_filter'' then FinishReasonSafety
      else if reason = ''function_call'' then FinishReasonStop
      else FinishReasonStop)"

text \<open>\<open>None\<close> is the nil response of a suppressed chunk.\<close>

definition convertChunk :: "ChatCompletionChunk \<Rightarrow> LLMResponse option" where
  "convertChunk chunk =
     (case Choices chunk of
        [] \<Rightarrow>
          if UsageValid chunk
          then Some (emptyResponse\<lparr>UsageMetadata := Some (convertUsage (Usage chunk)),
                                   TurnComplete := True\<rparr>)
          else None
      | choice # _ \<Rightarrow>
          (let content =
                 \<lparr>Parts = (if DeltaContent choice \<noteq> ''''
                            then [Some \<lparr>Text = DeltaContent choice, FunctionCall = None,
                                        FunctionResponse = None, InlineData = None\<rparr>]
                            else []),
                  Role = RoleModel\<rparr>;
               resp = emptyResponse\<lparr>Content := Some content, Partial := True\<rparr>
           in if ChoiceFinishReason choice \<noteq> ''''
              then
               (let resp1 = resp\<lparr>TurnComplete := True, Partial := False,
                                 FinishReason := finishReason (ChoiceFinishReason choice)\<rparr>
                in if UsageValid chunk
                   then Some (resp1\<lparr>UsageMetadata := Some (convertUsage (Usage chunk))\<rparr>)
                   else Some resp1)
              else Some resp))"

text \<open>
  The iterator returned by \<^verbatim>\<open>generateStream\<close>. The provider stream is the list of
  chunks that \<^verbatim>\<open>stream.Next\<close> delivers and the final \<^verbatim>\<open>stream.Err()\<close>. The consumer
  is the callback \<open>yield\<close> with its own state; it receives \<open>Inr resp\<close> for
  \<^verbatim>\<open>yield(resp, nil)\<close> and \<open>Inl err\<close> for \<^verbatim>\<open>yield(nil, err)\<close> and answers whether to
  go on. The flag of \<open>streamLoop\<close> is False when the loop returned early.
\<close>

type_synonym event = "error + LLMResponse"

fun streamLoop ::
  "('s \<Rightarrow> event \<Rightarrow> 's \<times> bool) \<Rightarrow> ChatCompletionChunk list \<Rightarrow> 's \<Rightarrow> 's \<times> bool" where
  "streamLoop yield [] s = (s, True)"
| "streamLoop yield (chunk # rest) s =
     (case convertChunk chunk of
        None \<Rightarrow> streamLoop yield rest s
      | Some resp \<Rightarrow>
          (case yield s (Inr resp) of
             (s', ok) \<Rightarrow> if \<not> ok then (s', False) else streamLoop yield rest s'))"

definition generateStream ::
  "('s \<Rightarrow> event \<Rightarrow> 's \<times> bool) \<Rightarrow> ChatCompletionChunk list \<Rightarrow> error option \<Rightarrow> 's \<Rightarrow> 's" where
  "generateStream yield chunks streamErr s =
     (case streamLoop yield chunks s of
        (s', finished) \<Rightarrow>
          if \<not> finished then s'
          else (case streamErr of
                  None \<Rightarrow> s'
                | Some err \<Rightarrow>
                    fst (yield s' (Inl (''failed to generate stream content: '' @ err)))))"

text \<open>
  A consumer that records every event it is handed and goes on as long as \<open>continue\<close>
  accepts what it has seen so far (the body of a \<^verbatim>\<open>for resp, err := range seq\<close> loop
  with a \<^verbatim>\<open>break\<close>).
\<close>

definition recording :: "(event list \<Rightarrow> bool) \<Rightarrow> event list \<Rightarrow> event \<Rightarrow> event list \<times> bool" where
  "recording continue seen ev = (seen @ [ev], continue (seen @ [ev]))"

section \<open>Artifact loader (tool/loadartifactstool/load_artifacts_tool.go)\<close>

text \<open>
  The artifact store is the function \<open>Load\<close>: the content Part of the named artifact
  (a pointer, so an option) or the error of the store.
\<close>

definition loadIndividualArtifact ::
  "(string \<Rightarrow> error + genai_Part option) \<Rightarrow> string \<Rightarrow> error + genai_Content" where
  "loadIndividualArtifact Load artifactName =
     (case Load artifactName of
        Inl err \<Rightarrow> Inl (''failed to load artifact '' @ artifactName @ '': '' @ err)
      | Inr part \<Rightarrow>
          Inr \<lparr>Parts = [Some (NewPartFromText (''Artifact '' @ artifactName @ '' is:'')), part],
               Role = RoleUser\<rparr>)"

text \<open>
  The errgroup: the pre-sized result slots and the first error that a task returned.
  \<open>goroutine\<close> is the completion of task \<open>i\<close>: it writes its own slot, or hands its
  error to the group, which keeps only the first. A schedule is the order in which the
  tasks complete. Tasks completing after the first error run on a cancelled context;
  whatever they do, the group already holds its error and the slots are discarded.
\<close>

record group_state =
  results :: "genai_Content option list"
  groupErr :: "error option"

definition goroutine ::
  "(string \<Rightarrow> error + genai_Part option) \<Rightarrow> string list \<Rightarrow> nat \<Rightarrow> group_state \<Rightarrow> group_state" where
  "goroutine Load artifactNames i g =
     (if i < length artifactNames
      then (case loadIndividualArtifact Load (artifactNames ! i) of
              Inl err \<Rightarrow>
                (case groupErr g of
                   None \<Rightarrow> g\<lparr>groupErr := Some (''failed to load artifact '' @ artifactNames ! i
                                               @ '': '' @ err)\<rparr>
                 | Some _ \<Rightarrow> g)
            | Inr content \<Rightarrow> g\<lparr>results := (results g)[i := Some content]\<rparr>)
      else g)"

definition groupWait ::
  "(string \<Rightarrow> error + genai_Part option) \<Rightarrow> string list \<Rightarrow> nat list \<Rightarrow> group_state" where
  "groupWait Load artifactNames schedule =
     fold (goroutine Load artifactNames) schedule
       \<lparr>results = replicate (length artifactNames) None, groupErr = None\<rparr>"

text \<open>The result is the returned error (\<open>None\<close> is nil) and the request as the call leaves it.\<close>

definition processLoadArtifactsFunctionCall ::
  "(string \<Rightarrow> error + genai_Part option) \<Rightarrow> nat list \<Rightarrow> LLMRequest
     \<Rightarrow> (error option \<times> LLMRequest) exec" where
  "processLoadArtifactsFunctionCall Load schedule req =
     (if length (Contents req) = 0 then Return (None, req)
      else case last (Contents req) of
        None \<Rightarrow> Return (None, req)
      | Some lastContent \<Rightarrow>
         (case Parts lastContent of
            [] \<Rightarrow> Return (None, req)
          | None # _ \<Rightarrow> Panic
          | Some firstPart # _ \<Rightarrow>
             (case FunctionResponse firstPart of
                None \<Rightarrow> Return (None, req)
              | Some functionResponse \<Rightarrow>
                 if Name functionResponse \<noteq> ''load_artifacts'' then Return (None, req)
                 else
                  (case Response functionResponse ''artifact_names'' of
                     None \<Rightarrow> Return (None, req)
                   | Some artifactNamesRaw \<Rightarrow>
                      (case artifactNamesRaw of
                         AnyStrings artifactNames \<Rightarrow>
                           if length artifactNames = 0 then Return (None, req)
                           else
                            (let g = groupWait Load artifactNames schedule
                             in case groupErr g of
                                  Some err \<Rightarrow> Return (Some err, req)
                                | None \<Rightarrow>
                                    Return (None, req\<lparr>Contents := Contents req @ results g\<rparr>))
                       | _ \<Rightarrow>
                           Return (Some (''invalid artifact names type: ''
                                         @ goTypeName artifactNamesRaw
                                         @ '', expected []string''), req))))))"

section \<open>Function tool (package functiontool)\<close>

text \<open>
  \<^verbatim>\<open>typeutil.ConvertToWithJSONSchema\<close> and the schema's \<^verbatim>\<open>Validate\<close> are not part
  of the files at hand: the tool carries them as functions. \<open>convertInput\<close> is the
  conversion of the argument mapping with the input schema, \<open>convertOutput\<close> the
  conversion of the handler's result with the output schema, \<open>outputSchema\<close> the
  \<^verbatim>\<open>Validate\<close> of the resolved output schema (\<open>None\<close> when the pointer is nil; a
  validation answers \<open>None\<close> for a nil error).
\<close>

record 'c functionTool =
  convertInput :: "(string \<Rightarrow> any option) \<Rightarrow> error + any"
  handler :: "'c \<Rightarrow> any \<Rightarrow> any"
  convertOutput :: "any \<Rightarrow> error + (string \<Rightarrow> any option)"
  outputSchema :: "(any \<Rightarrow> error option) option"

definition functionTool_Run ::
  "'c functionTool \<Rightarrow> 'c \<Rightarrow> any \<Rightarrow> error + (string \<Rightarrow> any option)" where
  "functionTool_Run f ctx args =
     (case args of
        AnyMap m \<Rightarrow>
          (case convertInput f m of
             Inl err \<Rightarrow> Inl err
           | Inr input \<Rightarrow>
              (let output = handler f ctx input
               in case convertOutput f output of
                    Inr resp \<Rightarrow> Inr resp
                  | Inl err \<Rightarrow>
                      (case outputSchema f of
                         None \<Rightarrow> Inr [''result'' \<mapsto> output]
                       | Some validate \<Rightarrow>
                           (case validate output of
                              Some err1 \<Rightarrow> Inl err
                            | None \<Rightarrow> Inr [''result'' \<mapsto> output]))))
      | _ \<Rightarrow> Inl (''unexpected args type, got: '' @ goTypeName args))"

section \<open>Remote-protocol tool (package mcptoolset)\<close>

datatype mcp_Content =
    TextContent string
  | ImageContent
  | AudioContent
  | ResourceLink
  | EmbeddedResource

record CallToolResult =
  IsError :: bool
  ResultContent :: "mcp_Content list"
  StructuredContent :: any

text \<open>
  The two loops that write every text fragment into a \<^verbatim>\<open>strings.Builder\<close>, whose
  \<^verbatim>\<open>WriteString\<close> always returns a nil error.
\<close>

fun writeTexts :: "mcp_Content list \<Rightarrow> string \<Rightarrow> string" where
  "writeTexts [] b = b"
| "writeTexts (TextContent t # cs) b = writeTexts cs (b @ t)"
| "writeTexts (_ # cs) b = writeTexts cs b"

text \<open>
  The remote side is the session getter and \<^verbatim>\<open>session.CallTool\<close>; \<open>quote\<close> is the
  verb \<^verbatim>\<open>%q\<close> of package fmt.
\<close>

record ('c, 'sess) mcpTool =
  name :: string
  getSessionFunc :: "'c \<Rightarrow> error + 'sess"
  CallTool :: "'sess \<Rightarrow> 'c \<Rightarrow> string \<Rightarrow> any \<Rightarrow> error + CallToolResult"
  quote :: "string \<Rightarrow> string"

definition mcpTool_Run ::
  "('c, 'sess) mcpTool \<Rightarrow> 'c \<Rightarrow> any \<Rightarrow> error + (string \<Rightarrow> any option)" where
  "mcpTool_Run t ctx args =
     (case getSessionFunc t ctx of
        Inl err \<Rightarrow> Inl (''failed to get session: '' @ err)
      | Inr session \<Rightarrow>
         (case CallTool t session ctx (name t) args of
            Inl err \<Rightarrow>
              Inl (''failed to call MCP tool '' @ quote t (name t) @ '' with err: '' @ err)
          | Inr res \<Rightarrow>
              if IsError res
              then
               (let details = writeTexts (ResultContent res) [];
                    errMsg = ''Tool execution failed.'';
                    errMsg1 = (if length details > 0 then errMsg @ '' Details: '' @ details
                               else errMsg)
                in Inl errMsg1)
              else if StructuredContent res \<noteq> AnyNil
              then Inr [''output'' \<mapsto> StructuredContent res]
              else
               (let textResponse = writeTexts (ResultContent res) []
                in if length textResponse = 0
                   then Inl ''no text content in tool response''
                   else Inr [''output'' \<mapsto> AnyString textResponse])))"

section \<open>Notions used to state the properties\<close>

text \<open>
  What one turn contributes when its role is mapped: one provider message of that role
  for each Part with a non-empty text, in the order of the Parts.
\<close>

definition turnMessages :: "genai_Content option \<Rightarrow> ChatCompletionMessageParamUnion list" where
  "turnMessages c =
     (case c of
        None \<Rightarrow> []
      | Some content \<Rightarrow>
          (case msgFunc (Role content) of
             None \<Rightarrow> []
           | Some f \<Rightarrow> map f [Text p. Some p \<leftarrow> Parts content, Text p \<noteq> '''']))"

text \<open>The text a provider message carries.\<close>

fun messageContent :: "ChatCompletionMessageParamUnion \<Rightarrow> string" where
  "messageContent (UserMessage s) = s"
| "messageContent (AssistantMessage s) = s"
| "messageContent (SystemMessage s) = s"
| "messageContent (DeveloperMessage s) = s"

text \<open>The non-empty texts of all Parts of a request, in order.\<close>

definition textParts :: "genai_Content option list \<Rightarrow> string list" where
  "textParts contents = [Text p. Some c \<leftarrow> contents, Some p \<leftarrow> Parts c, Text p \<noteq> '''']"

text \<open>A turn with every Part reduced to its text: all other variants are erased.\<close>

definition textOnly :: "genai_Content \<Rightarrow> genai_Content" where
  "textOnly c = c\<lparr>Parts := map (map_option (\<lambda>p. NewPartFromText (Text p))) (Parts c)\<rparr>"

text \<open>
  A turn without the Parts that carry no text: nil Parts and Parts with an empty text
  (a function call or a function result alone) are removed.
\<close>

definition withoutTextlessParts :: "genai_Content \<Rightarrow> genai_Content" where
  "withoutTextlessParts c =
     c\<lparr>Parts := filter (\<lambda>p. case p of None \<Rightarrow> False | Some q \<Rightarrow> Text q \<noteq> '''') (Parts c)\<rparr>"

text \<open>The zero value \<^verbatim>\<open>genai.GenerateContentConfig{}\<close>.\<close>

definition emptyConfig :: genai_GenerateContentConfig where
  "emptyConfig =
     \<lparr>Temperature = None, TopP = None, TopK = None, MaxOutputTokens = 0,
      StopSequences = [], CandidateCount = 0, FrequencyPenalty = None,
      PresencePenalty = None, ResponseLogprobs = False, Logprobs = None,
      SystemInstruction = None, ResponseMIMEType = ''''\<rparr>"

text \<open>A consumer that never stops early.\<close>

definition always :: "event list \<Rightarrow> bool" where
  "always seen = True"

text \<open>
  The flags of one streamed event agree: a partial event has no finish reason, and an
  event with a finish reason is not partial and completes the turn. The final error
  element carries no response.
\<close>

definition flagsAgree :: "event \<Rightarrow> bool" where
  "flagsAgree ev =
     (case ev of
        Inl err \<Rightarrow> True
      | Inr resp \<Rightarrow>
          (Partial resp \<longrightarrow> FinishReason resp = '''')
          \<and> (FinishReason resp \<noteq> '''' \<longrightarrow> \<not> Partial resp \<and> TurnComplete resp))"

text \<open>
  The synthetic user turn for one loaded artifact: the text label, then the content
  Part of the artifact.
\<close>

definition artifactTurn :: "string \<Rightarrow> genai_Part option \<Rightarrow> genai_Content" where
  "artifactTurn artifactName part =
     \<lparr>Parts = [Some (NewPartFromText (''Artifact '' @ artifactName @ '' is:'')), part],
      Role = ''user''\<rparr>"

text \<open>
  The error of a failed load as the caller sees it: \<^verbatim>\<open>loadIndividualArtifact\<close> and
  the task both wrap the error of the store.
\<close>

definition loadError :: "string \<Rightarrow> error \<Rightarrow> error" where
  "loadError artifactName err =
     ''failed to load artifact '' @ artifactName @ '': failed to load artifact ''
       @ artifactName @ '': '' @ err"

text \<open>
  The first Part of the most recent turn: \<open>None\<close> when the request has no turn, the
  last turn is nil or it has no Parts; \<open>Some None\<close> when the first Part is a nil
  pointer.
\<close>

definition mostRecentFirstPart :: "LLMRequest \<Rightarrow> genai_Part option option" where
  "mostRecentFirstPart req =
     (if Contents req = [] then None
      else case last (Contents req) of
             None \<Rightarrow> None
           | Some c \<Rightarrow> (case Parts c of [] \<Rightarrow> None | p # _ \<Rightarrow> Some p))"

text \<open>
  What a Part carries under the key \<open>artifact_names\<close> as a function result named
  exactly \<open>load_artifacts\<close>.
\<close>

definition artifactNamesOf :: "genai_Part \<Rightarrow> any option" where
  "artifactNamesOf p =
     (case FunctionResponse p of
        None \<Rightarrow> None
      | Some fr \<Rightarrow> if Name fr = ''load_artifacts'' then Response fr ''artifact_names'' else None)"

subsection \<open>Example collaborators\<close>

text \<open>
  An artifact store that holds every artifact but the one named \<open>missing\<close>, and a
  request whose most recent turn starts with the result of a \<open>load_artifacts\<close> call.
\<close>

definition exampleStore :: "string \<Rightarrow> error + genai_Part option" where
  "exampleStore artifactName =
     (if artifactName = ''missing'' then Inl ''artifact not found''
      else Inr (Some (NewPartFromText (''content of '' @ artifactName))))"

definition loadArtifactsRequest :: "any \<Rightarrow> LLMRequest" where
  "loadArtifactsRequest artifactNamesRaw =
     \<lparr>Model = ''gpt'',
      Contents =
        [Some \<lparr>Parts = [Some \<lparr>Text = '''', FunctionCall = None,
                               FunctionResponse =
                                 Some \<lparr>Name = ''load_artifacts'',
                                       Response = [''artifact_names'' \<mapsto> artifactNamesRaw]\<rparr>,
                               InlineData = None\<rparr>],
               Role = ''user''\<rparr>],
      Config = None\<rparr>"

text \<open>
  A function tool that echoes its argument \<open>value\<close>; its output converts to a mapping
  only when it is one, and its output schema accepts integers and objects.
\<close>

definition exampleHandler :: "unit \<Rightarrow> any \<Rightarrow> any" where
  "exampleHandler ctx input =
     (case input of
        AnyMap m \<Rightarrow> (case m ''value'' of Some v \<Rightarrow> v | None \<Rightarrow> AnyNil)
      | _ \<Rightarrow> AnyNil)"

definition exampleConvertOutput :: "any \<Rightarrow> error + (string \<Rightarrow> any option)" where
  "exampleConvertOutput output =
     (case output of
        AnyMap m \<Rightarrow> Inr m
      | _ \<Rightarrow> Inl ''cannot convert the output to a mapping'')"

definition exampleValidate :: "any \<Rightarrow> error option" where
  "exampleValidate output =
     (case output of
        AnyInt _ \<Rightarrow> None
      | AnyMap _ \<Rightarrow> None
      | _ \<Rightarrow> Some ''the output is neither an integer nor an object'')"

definition exampleTool :: "unit functionTool" where
  "exampleTool =
     \<lparr>convertInput = (\<lambda>m. Inr (AnyMap m)), handler = exampleHandler,
      convertOutput = exampleConvertOutput, outputSchema = Some exampleValidate\<rparr>"

text \<open>A remote tool whose endpoint answers every call with the given result.\<close>

definition remoteTool :: "CallToolResult \<Rightarrow> (unit, unit) mcpTool" where
  "remoteTool res =
     \<lparr>name = ''remote_tool'', getSessionFunc = (\<lambda>ctx. Inr ()),
      CallTool = (\<lambda>session ctx toolName args. Inr res),
      quote = (\<lambda>s. [CHR 0x22] @ s @ [CHR 0x22])\<rparr>"

section \<open>Request translation: properties\<close>

subsection \<open>Auxiliary facts\<close>

lemma appendTexts_eq:
  "appendTexts ps txts = txts @ [Text p. Some p \<leftarrow> ps, Text p \<noteq> '''']"
  by (induction ps txts rule: appendTexts.induct) auto

lemma flushText_mapped:
  assumes "msgFunc (curRole st) = Some f"
  shows "messages (flushText st) = messages st @ map f (texts st)"
    and "texts (flushText st) = []"
  using assms by (auto simp: flushText_def newMessages_def)

lemma turnMessages_None [simp]: "turnMessages None = []"
  by (simp add: turnMessages_def)

lemma turnMessages_Some:
  "turnMessages (Some content) =
     (case msgFunc (Role content) of
        None \<Rightarrow> []
      | Some f \<Rightarrow> map f [Text p. Some p \<leftarrow> Parts content, Text p \<noteq> ''''])"
  by (simp add: turnMessages_def)

lemma covertLoop_mapped:
  assumes "\<forall>c. Some c \<in> set contents \<and> Parts c \<noteq> [] \<longrightarrow> msgFunc (Role c) \<noteq> None"
    and "texts st = []"
  shows "messages (covertLoop contents st) = messages st @ concat (map turnMessages contents)
         \<and> texts (covertLoop contents st) = []"
  using assms
proof (induction contents st rule: covertLoop.induct)
  case (1 st)
  then show ?case by simp
next
  case (2 cs st)
  then show ?case by simp
next
  case (3 content cs st)
  show ?case
  proof (cases "Parts content = []")
    case True
    with 3 show ?thesis by (auto simp: turnMessages_Some split: option.splits)
  next
    case False
    with "3.prems" obtain f where f: "msgFunc (Role content) = Some f" by auto
    let ?st1 = "st\<lparr>curRole := Role content, texts := appendTexts (Parts content) (texts st)\<rparr>"
    have m: "messages (flushText ?st1) = messages st @ map f (appendTexts (Parts content) [])"
      and t: "texts (flushText ?st1) = []"
      using flushText_mapped[of ?st1 f] f "3.prems"(2) by simp_all
    have "messages (covertLoop cs (flushText ?st1)) =
            messages (flushText ?st1) @ concat (map turnMessages cs)
          \<and> texts (covertLoop cs (flushText ?st1)) = []"
      using "3.IH"(2)[OF _ _ t] False "3.prems"(1) by auto
    then show ?thesis
      using False m f by (simp add: turnMessages_Some appendTexts_eq)
  qed
qed

lemma msgFunc_content: "msgFunc r = Some f \<Longrightarrow> messageContent (f t) = t"
  by (auto simp: msgFunc_def split: if_splits)

lemma flushText_contents:
  "map messageContent (messages (flushText st)) @ texts (flushText st)
     = map messageContent (messages st) @ texts st"
  by (auto simp: flushText_def newMessages_def comp_def msgFunc_content split: option.splits)

lemma textParts_simps:
  "textParts [] = []"
  "textParts (None # cs) = textParts cs"
  "textParts (Some c # cs) = [Text p. Some p \<leftarrow> Parts c, Text p \<noteq> ''''] @ textParts cs"
  by (simp_all add: textParts_def)

lemma covertLoop_contents:
  "map messageContent (messages (covertLoop contents st)) @ texts (covertLoop contents st)
     = map messageContent (messages st) @ texts st @ textParts contents"
proof (induction contents st rule: covertLoop.induct)
  case (1 st)
  then show ?case by (simp add: textParts_simps)
next
  case (2 cs st)
  then show ?case by (simp add: textParts_simps)
next
  case (3 content cs st)
  show ?case
  proof (cases "Parts content = []")
    case True
    with 3 show ?thesis by (simp add: textParts_simps)
  next
    case False
    let ?st1 = "st\<lparr>curRole := Role content, texts := appendTexts (Parts content) (texts st)\<rparr>"
    have "map messageContent (messages (covertLoop cs (flushText ?st1)))
            @ texts (covertLoop cs (flushText ?st1))
          = (map messageContent (messages (flushText ?st1)) @ texts (flushText ?st1))
            @ textParts cs"
      using "3.IH"(2) False by simp
    also have "\<dots> = (map messageContent (messages ?st1) @ texts ?st1) @ textParts cs"
      by (simp only: flushText_contents)
    finally show ?thesis
      using False by (simp add: textParts_simps appendTexts_eq)
  qed
qed

lemma covertContents_prefix:
  "prefix (map messageContent (covertContents contents)) (textParts contents)"
proof -
  let ?st = "covertLoop contents \<lparr>messages = [], texts = [], curRole = ''''\<rparr>"
  have "textParts contents = map messageContent (covertContents contents) @ texts ?st"
    using covertLoop_contents[of contents "\<lparr>messages = [], texts = [], curRole = ''''\<rparr>"]
    by (simp add: covertContents_def)
  then show ?thesis by (simp add: prefix_def)
qed

lemma appendTexts_textOnly:
  "appendTexts (map (map_option (\<lambda>p. NewPartFromText (Text p))) ps) txts = appendTexts ps txts"
  by (induction ps txts rule: appendTexts.induct) (simp_all add: NewPartFromText_def)

lemma covertLoop_textOnly:
  "covertLoop (map (map_option textOnly) contents) st = covertLoop contents st"
  by (induction contents st rule: covertLoop.induct)
     (simp_all add: textOnly_def appendTexts_textOnly)

lemma applyGenerationConfig_topK:
  "TopK cfg = Some y \<Longrightarrow>
     applyGenerationConfig params (Some cfg) = Inl ''top_k is not supported''"
  by (simp add: applyGenerationConfig_def Let_def)

lemma applyGenerationConfig_mime:
  "TopK cfg = None \<Longrightarrow> ResponseMIMEType cfg \<noteq> '''' \<Longrightarrow>
   ResponseMIMEType cfg \<noteq> ''text/plain'' \<Longrightarrow>
     applyGenerationConfig params (Some cfg) = Inl ''response_mime_type is not supported''"
  by (simp add: applyGenerationConfig_def Let_def)

lemma applyGenerationConfig_ok:
  assumes k: "TopK cfg = None"
    and m: "ResponseMIMEType cfg = '''' \<or> ResponseMIMEType cfg = ''text/plain''"
  shows "\<exists>p. applyGenerationConfig params (Some cfg) = Inr p \<and>
             Messages p = Messages params @ covertSystemMessage (SystemInstruction cfg)"
proof -
  define p1 where "p1 = (case Temperature cfg of None \<Rightarrow> params
                     | Some t \<Rightarrow> params\<lparr>ParamsTemperature := Some t\<rparr>)"
  define p2 where "p2 = (case TopP cfg of None \<Rightarrow> p1 | Some t \<Rightarrow> p1\<lparr>ParamsTopP := Some t\<rparr>)"
  define p3 where "p3 = (if 0 <s MaxOutputTokens cfg
                          then p2\<lparr>MaxTokens := Some (scast (MaxOutputTokens cfg))\<rparr> else p2)"
  define p4 where "p4 = (if length (StopSequences cfg) > 0
                          then p3\<lparr>Stop := Some (StopSequences cfg)\<rparr> else p3)"
  define p5 where "p5 = (if 1 <s CandidateCount cfg
                          then p4\<lparr>ParamsN := Some (scast (CandidateCount cfg))\<rparr> else p4)"
  define p6 where "p6 = (case FrequencyPenalty cfg of None \<Rightarrow> p5
                          | Some t \<Rightarrow> p5\<lparr>ParamsFrequencyPenalty := Some t\<rparr>)"
  define p7 where "p7 = (case PresencePenalty cfg of None \<Rightarrow> p6
                          | Some t \<Rightarrow> p6\<lparr>ParamsPresencePenalty := Some t\<rparr>)"
  define p8 where "p8 = (if ResponseLogprobs cfg
                          then (case Logprobs cfg of
                                  Some l \<Rightarrow> p7\<lparr>TopLogprobs := Some (scast l)\<rparr>
                                | None \<Rightarrow> p7\<lparr>TopLogprobs := Some 1\<rparr>)
                          else p7)"
  define p9 where "p9 = (case SystemInstruction cfg of
                            None \<Rightarrow> p8
                          | Some si \<Rightarrow>
                              p8\<lparr>Messages := Messages p8 @ covertSystemMessage (Some si)\<rparr>)"
  have e: "applyGenerationConfig params (Some cfg) = Inr p9"
    using k m
    unfolding applyGenerationConfig_def p9_def p8_def p7_def p6_def p5_def p4_def p3_def
      p2_def p1_def Let_def
    by (auto split del: if_split)
  have "Messages p1 = Messages params" by (simp add: p1_def split: option.split)
  then have "Messages p2 = Messages params" by (simp add: p2_def split: option.split)
  then have "Messages p3 = Messages params" by (simp add: p3_def)
  then have "Messages p4 = Messages params" by (simp add: p4_def)
  then have "Messages p5 = Messages params" by (simp add: p5_def)
  then have "Messages p6 = Messages params" by (simp add: p6_def split: option.split)
  then have "Messages p7 = Messages params" by (simp add: p7_def split: option.split)
  then have "Messages p8 = Messages params" by (simp add: p8_def split: option.split)
  then have "Messages p9 = Messages params @ covertSystemMessage (SystemInstruction cfg)"
    by (simp add: p9_def covertSystemMessage_def split: option.split)
  with e show ?thesis by simp
qed

lemma applyGenerationConfig_Some:
  assumes "applyGenerationConfig params (Some cfg) = Inr params'"
  shows "Messages params' = Messages params @ covertSystemMessage (SystemInstruction cfg)"
proof -
  have k: "TopK cfg = None"
    using assms applyGenerationConfig_topK[of cfg _ params] by (cases "TopK cfg") auto
  have m: "ResponseMIMEType cfg = '''' \<or> ResponseMIMEType cfg = ''text/plain''"
    using assms k applyGenerationConfig_mime[of cfg params] by auto
  from applyGenerationConfig_ok[OF k m, of params] assms show ?thesis by auto
qed

subsection \<open>One provider message per text Part\<close>

text \<open>
  C1, as amended. Two text Parts of one turn are not merged: \<^verbatim>\<open>newMessages\<close> builds
  one provider message for each text. When every turn that has Parts has a mapped role,
  the translation is the concatenation, in turn order, of what each turn contributes:
  one message of the turn's mapped role for each Part with a non-empty text, in Part
  order.
\<close>

theorem covertContents_one_message_per_text_part:
  assumes "\<forall>c. Some c \<in> set contents \<and> Parts c \<noteq> [] \<longrightarrow> msgFunc (Role c) \<noteq> None"
  shows "covertContents contents = concat (map turnMessages contents)"
  using covertLoop_mapped[OF assms, of "\<lparr>messages = [], texts = [], curRole = ''''\<rparr>"]
  by (simp add: covertContents_def)

theorem covertContents_one_message_per_text_part_witness:
  "covertContents
     [Some \<lparr>Parts = [Some (NewPartFromText ''a''), Some (NewPartFromText ''b'')], Role = ''user''\<rparr>,
      Some \<lparr>Parts = [Some (NewPartFromText ''c'')], Role = ''model''\<rparr>]
   = [UserMessage ''a'', UserMessage ''b'', AssistantMessage ''c'']"
proof -
  let ?cs = "[Some \<lparr>Parts = [Some (NewPartFromText ''a''), Some (NewPartFromText ''b'')], Role = ''user''\<rparr>,
              Some \<lparr>Parts = [Some (NewPartFromText ''c'')], Role = ''model''\<rparr>]"
  have h: "\<forall>c. Some c \<in> set ?cs \<and> Parts c \<noteq> [] \<longrightarrow> msgFunc (Role c) \<noteq> None"
    by (auto simp: msgFunc_def RoleUser_def RoleModel_def)
  show ?thesis
    using covertContents_one_message_per_text_part[OF h]
    by (simp add: turnMessages_Some msgFunc_def RoleUser_def RoleModel_def NewPartFromText_def)
qed

text \<open>
  C1, as stated, fails: a single user turn with the two text Parts \<open>a\<close> and \<open>b\<close> is
  translated into two user messages, not one.
\<close>

theorem covertContents_two_texts_two_messages:
  "covertContents
     [Some \<lparr>Parts = [Some (NewPartFromText ''a''), Some (NewPartFromText ''b'')], Role = ''user''\<rparr>]
     = [UserMessage ''a'', UserMessage ''b'']
   \<and> length (covertContents
     [Some \<lparr>Parts = [Some (NewPartFromText ''a''), Some (NewPartFromText ''b'')], Role = ''user''\<rparr>])
     = 2"
  by (simp add: covertContents_def flushText_def newMessages_def msgFunc_def
        NewPartFromText_def RoleUser_def)

subsection \<open>Turns with an unmapped role\<close>

text \<open>
  C2. For an unmapped role \<^verbatim>\<open>newMessages\<close> returns nil and \<^verbatim>\<open>flushText\<close> returns
  before it clears the collected texts, so the texts of the dropped turn stay pending
  and leave with the next turn, under that turn's role. Here the text \<open>x\<close> of a turn
  with the role \<open>tool\<close> reaches the wire as a user message.
\<close>

theorem covertContents_unknown_role_leaks:
  "covertContents
     [Some \<lparr>Parts = [Some (NewPartFromText ''x'')], Role = ''tool''\<rparr>,
      Some \<lparr>Parts = [Some (NewPartFromText ''y'')], Role = ''user''\<rparr>]
     = [UserMessage ''x'', UserMessage ''y'']"
  by (simp add: covertContents_def flushText_def newMessages_def msgFunc_def
        NewPartFromText_def RoleUser_def RoleModel_def)

subsection \<open>Position of the system messages\<close>

text \<open>
  C3, as amended. \<^verbatim>\<open>applyGenerationConfig\<close> runs on the fresh parameters, before the
  turns are translated: whenever the translation succeeds, the message list is the system
  messages of the System Instruction followed by the messages built from the turns.
\<close>

theorem system_messages_precede_turn_messages:
  assumes "LLMRequest2ChatCompletionNewParams req = Inr params"
  shows "Messages params =
           covertSystemMessage (case Config req of None \<Rightarrow> None | Some cfg \<Rightarrow> SystemInstruction cfg)
           @ covertContents (Contents req)"
proof -
  from assms obtain p where p: "applyGenerationConfig (newParams (Model req)) (Config req) = Inr p"
    and eq: "params = p\<lparr>Messages := Messages p @ covertContents (Contents req)\<rparr>"
    by (auto simp: LLMRequest2ChatCompletionNewParams_def split: sum.splits)
  show ?thesis
  proof (cases "Config req")
    case None
    with p eq show ?thesis
      by (auto simp: applyGenerationConfig_def newParams_def covertSystemMessage_def)
  next
    case (Some cfg)
    with p applyGenerationConfig_Some[of "newParams (Model req)" cfg p] eq show ?thesis
      by (simp add: newParams_def)
  qed
qed

theorem system_messages_precede_turn_messages_witness:
  "map_sum id Messages (LLMRequest2ChatCompletionNewParams
     \<lparr>Model = ''gpt'',
      Contents = [Some (NewContentFromText ''What is 2+2?'' ''user''),
                  Some (NewContentFromText ''4'' ''model''),
                  Some (NewContentFromText ''And 3+3?'' ''user'')],
      Config = Some (emptyConfig\<lparr>SystemInstruction :=
                        Some (NewContentFromText ''Answer with a number'' ''system'')\<rparr>)\<rparr>)
   = Inr [SystemMessage ''Answer with a number'', UserMessage ''What is 2+2?'',
          AssistantMessage ''4'', UserMessage ''And 3+3?'']"
proof -
  let ?req = "\<lparr>Model = ''gpt'',
      Contents = [Some (NewContentFromText ''What is 2+2?'' ''user''),
                  Some (NewContentFromText ''4'' ''model''),
                  Some (NewContentFromText ''And 3+3?'' ''user'')],
      Config = Some (emptyConfig\<lparr>SystemInstruction :=
                        Some (NewContentFromText ''Answer with a number'' ''system'')\<rparr>)\<rparr>"
  obtain params where e: "LLMRequest2ChatCompletionNewParams ?req = Inr params"
    by (simp add: LLMRequest2ChatCompletionNewParams_def applyGenerationConfig_def Let_def
          emptyConfig_def)
  have "Messages params =
          [SystemMessage ''Answer with a number'', UserMessage ''What is 2+2?'',
           AssistantMessage ''4'', UserMessage ''And 3+3?'']"
    using system_messages_precede_turn_messages[OF e]
    by (simp add: emptyConfig_def covertSystemMessage_def NewContentFromText_def
          NewPartFromText_def covertContents_def flushText_def newMessages_def msgFunc_def
          RoleUser_def RoleModel_def)
  with e show ?thesis by simp
qed

text \<open>
  C3, as stated, fails: with the System Instruction \<open>You are concise\<close> and one user turn
  \<open>Hi\<close>, the system message is the first message, before the message built from the
  turn.
\<close>

theorem system_message_not_after_turn_messages:
  "map_sum id Messages (LLMRequest2ChatCompletionNewParams
     \<lparr>Model = ''gpt'',
      Contents = [Some (NewContentFromText ''Hi'' ''user'')],
      Config = Some (emptyConfig\<lparr>SystemInstruction :=
                        Some (NewContentFromText ''You are concise'' ''system'')\<rparr>)\<rparr>)
     = Inr [SystemMessage ''You are concise'', UserMessage ''Hi'']
   \<and> covertContents [Some (NewContentFromText ''Hi'' ''user'')] = [UserMessage ''Hi'']"
  by (simp add: LLMRequest2ChatCompletionNewParams_def applyGenerationConfig_def Let_def
        emptyConfig_def newParams_def covertSystemMessage_def NewContentFromText_def
        NewPartFromText_def covertContents_def flushText_def newMessages_def msgFunc_def
        RoleUser_def)

subsection \<open>Conversation priming\<close>

text \<open>
  C8. \<^verbatim>\<open>maybeAppendUserContent\<close> leaves a request whose last turn has the role
  \<open>user\<close> as it is, appends exactly one synthetic user turn to a request without turns,
  and applying it twice is the same as applying it once.
\<close>

theorem maybeAppendUserContent_priming:
  "(\<forall>c. Contents req \<noteq> [] \<and> last (Contents req) = Some c \<and> Role c = ''user''
        \<longrightarrow> maybeAppendUserContent req = req)
   \<and> (Contents req = [] \<longrightarrow>
        Contents (maybeAppendUserContent req) =
          [Some (NewContentFromText
                   ''Handle the requests as specified in the System Instruction.'' ''user'')])
   \<and> maybeAppendUserContent (maybeAppendUserContent req) = maybeAppendUserContent req"
  by (auto simp: maybeAppendUserContent_def Let_def NewContentFromText_def split: option.splits)

theorem maybeAppendUserContent_priming_witness:
  "maybeAppendUserContent
     \<lparr>Model = ''gpt'', Contents = [Some (NewContentFromText ''hello'' ''user'')], Config = None\<rparr>
     = \<lparr>Model = ''gpt'', Contents = [Some (NewContentFromText ''hello'' ''user'')], Config = None\<rparr>
   \<and> Contents (maybeAppendUserContent \<lparr>Model = ''gpt'', Contents = [], Config = None\<rparr>)
     = [Some (NewContentFromText
                ''Handle the requests as specified in the System Instruction.'' ''user'')]
   \<and> maybeAppendUserContent
       (maybeAppendUserContent \<lparr>Model = ''gpt'', Contents = [], Config = None\<rparr>)
     = maybeAppendUserContent \<lparr>Model = ''gpt'', Contents = [], Config = None\<rparr>"
  using maybeAppendUserContent_priming
          [of "\<lparr>Model = ''gpt'', Contents = [Some (NewContentFromText ''hello'' ''user'')],
                Config = None\<rparr>"]
        maybeAppendUserContent_priming [of "\<lparr>Model = ''gpt'', Contents = [], Config = None\<rparr>"]
  by (simp add: NewContentFromText_def)

subsection \<open>Only texts reach the wire\<close>

text \<open>
  For every request, the texts of the provider messages are, in order, an initial
  segment of the non-empty texts of the request's Parts; erasing everything but the text
  from every Part, the Part kept in its place, leaves the translation unchanged; and
  whether the request translates depends on the configuration alone.
\<close>

lemma covertContents_only_text:
  "prefix (map messageContent (covertContents contents)) (textParts contents)
   \<and> covertContents (map (map_option textOnly) contents) = covertContents contents
   \<and> isl (LLMRequest2ChatCompletionNewParams (req\<lparr>Contents := contents\<rparr>))
       = isl (LLMRequest2ChatCompletionNewParams (req\<lparr>Contents := []\<rparr>))"
proof (intro conjI)
  show "prefix (map messageContent (covertContents contents)) (textParts contents)"
    by (rule covertContents_prefix)
  show "covertContents (map (map_option textOnly) contents) = covertContents contents"
    by (simp add: covertContents_def covertLoop_textOnly)
  show "isl (LLMRequest2ChatCompletionNewParams (req\<lparr>Contents := contents\<rparr>))
          = isl (LLMRequest2ChatCompletionNewParams (req\<lparr>Contents := []\<rparr>))"
    by (simp add: LLMRequest2ChatCompletionNewParams_def split: sum.split)
qed

text \<open>
  When every turn that has Parts has a mapped role, the Parts without text have no
  effect at all: the translation is the same with them removed.
\<close>

lemma texts_filter_textless:
  "[Text p. Some p \<leftarrow> filter (\<lambda>p. case p of None \<Rightarrow> False | Some q \<Rightarrow> Text q \<noteq> '''') ps,
            Text p \<noteq> '''']
     = [Text p. Some p \<leftarrow> ps, Text p \<noteq> '''']"
  by (induction ps) (auto split: option.splits)

lemma turnMessages_withoutTextlessParts:
  "turnMessages (map_option withoutTextlessParts c) = turnMessages c"
proof (cases c)
  case None
  then show ?thesis by simp
next
  case (Some content)
  have "Role (withoutTextlessParts content) = Role content"
    by (simp add: withoutTextlessParts_def)
  moreover have "[Text p. Some p \<leftarrow> Parts (withoutTextlessParts content), Text p \<noteq> '''']
                   = [Text p. Some p \<leftarrow> Parts content, Text p \<noteq> '''']"
  proof -
    have "Parts (withoutTextlessParts content)
            = filter (\<lambda>p. case p of None \<Rightarrow> False | Some q \<Rightarrow> Text q \<noteq> '''') (Parts content)"
      by (simp add: withoutTextlessParts_def)
    then show ?thesis by (simp only: texts_filter_textless)
  qed
  ultimately show ?thesis
    using Some by (simp only: option.map turnMessages_Some)
qed

lemma covertContents_textless_parts_invisible:
  assumes "\<forall>c. Some c \<in> set contents \<and> Parts c \<noteq> [] \<longrightarrow> msgFunc (Role c) \<noteq> None"
  shows "covertContents (map (map_option withoutTextlessParts) contents)
           = covertContents contents"
proof -
  let ?st0 = "\<lparr>messages = [], texts = [], curRole = ''''\<rparr>"
  have mapped: "\<forall>c. Some c \<in> set (map (map_option withoutTextlessParts) contents)
                      \<and> Parts c \<noteq> [] \<longrightarrow> msgFunc (Role c) \<noteq> None"
  proof (intro allI impI)
    fix c
    assume a: "Some c \<in> set (map (map_option withoutTextlessParts) contents) \<and> Parts c \<noteq> []"
    then obtain c0 where c0: "Some c0 \<in> set contents" "c = withoutTextlessParts c0"
      by (auto simp: map_option_case split: option.splits)
    with a have "Parts c0 \<noteq> []" by (auto simp: withoutTextlessParts_def)
    with assms c0 show "msgFunc (Role c) \<noteq> None"
      by (simp add: withoutTextlessParts_def)
  qed
  have "covertContents (map (map_option withoutTextlessParts) contents)
          = concat (map turnMessages (map (map_option withoutTextlessParts) contents))"
    using covertLoop_mapped[OF mapped, of ?st0] by (simp add: covertContents_def)
  also have "\<dots> = concat (map turnMessages contents)"
    by (simp add: comp_def turnMessages_withoutTextlessParts)
  also have "\<dots> = covertContents contents"
    using covertLoop_mapped[OF assms, of ?st0] by (simp add: covertContents_def)
  finally show ?thesis .
qed

text \<open>
  C10. The loop reads only the text of a Part, so a Part with a function call is meant
  to leave no trace. After a turn with an unmapped role it does leave one: the texts of
  that turn are still pending (the early return of \<^verbatim>\<open>flushText\<close>, as in C2), and the
  turn that holds the function call flushes them under its own role. With the Part the
  translation is the assistant message \<open>x\<close>; with the Part absent it is empty.
\<close>

theorem covertContents_textless_part_flushes_leak:
  "covertContents
     [Some \<lparr>Parts = [Some (NewPartFromText ''x'')], Role = ''tool''\<rparr>,
      Some \<lparr>Parts = [Some \<lparr>Text = '''',
                            FunctionCall = Some \<lparr>CallName = ''get_weather'', Args = Map.empty\<rparr>,
                            FunctionResponse = None, InlineData = None\<rparr>],
            Role = ''model''\<rparr>]
     = [AssistantMessage ''x'']
   \<and> covertContents
     [Some \<lparr>Parts = [Some (NewPartFromText ''x'')], Role = ''tool''\<rparr>,
      Some \<lparr>Parts = [], Role = ''model''\<rparr>]
     = []"
  by (simp add: covertContents_def flushText_def newMessages_def msgFunc_def
        NewPartFromText_def RoleUser_def RoleModel_def)

section \<open>Streaming: properties\<close>

lemma convertChunk_flagsAgree:
  assumes "convertChunk chunk = Some resp"
  shows "flagsAgree (Inr resp)"
proof (cases "Choices chunk")
  case Nil
  with assms have "UsageValid chunk"
    and "resp = emptyResponse\<lparr>UsageMetadata := Some (convertUsage (Usage chunk)),
                              TurnComplete := True\<rparr>"
    by (simp_all add: convertChunk_def split: if_splits)
  then show ?thesis by (simp add: emptyResponse_def flagsAgree_def)
next
  case (Cons choice rest)
  show ?thesis
  proof (cases "ChoiceFinishReason choice = ''''")
    case True
    with Cons assms have "Partial resp" and "FinishReason resp = ''''"
      by (auto simp: convertChunk_def emptyResponse_def Let_def)
    then show ?thesis by (simp add: flagsAgree_def)
  next
    case False
    with Cons assms have "\<not> Partial resp" and "TurnComplete resp"
      by (auto simp: convertChunk_def emptyResponse_def Let_def split: if_splits)
    then show ?thesis by (simp add: flagsAgree_def)
  qed
qed

lemma streamLoop_recording:
  assumes "\<forall>ev \<in> set seen. P ev"
    and "\<And>chunk resp. convertChunk chunk = Some resp \<Longrightarrow> P (Inr resp)"
  shows "\<forall>ev \<in> set (fst (streamLoop (recording continue) chunks seen)). P ev"
  using assms(1)
proof (induction chunks arbitrary: seen)
  case Nil
  have "streamLoop (recording continue) [] seen = (seen, True)" by simp
  with Nil.prems show ?case by (simp only: fst_conv)
next
  case (Cons chunk rest)
  show ?case
  proof (cases "convertChunk chunk")
    case None
    then have "streamLoop (recording continue) (chunk # rest) seen
               = streamLoop (recording continue) rest seen"
      by simp
    with Cons.IH[OF Cons.prems] show ?thesis by (simp only:)
  next
    case (Some resp)
    have "P (Inr resp)" by (rule assms(2)[OF Some])
    with Cons.prems have seen': "\<forall>ev \<in> set (seen @ [Inr resp]). P ev"
      by auto
    show ?thesis
    proof (cases "continue (seen @ [Inr resp])")
      case True
      with Some have "streamLoop (recording continue) (chunk # rest) seen
                 = streamLoop (recording continue) rest (seen @ [Inr resp])"
        by (simp add: recording_def)
      with Cons.IH[OF seen'] show ?thesis by (simp only:)
    next
      case False
      with Some have "streamLoop (recording continue) (chunk # rest) seen
                 = (seen @ [Inr resp], False)"
        by (simp add: recording_def)
      with seen' show ?thesis by (simp only: fst_conv)
    qed
  qed
qed

text \<open>
  C4, as amended. For every sequence of chunks, every final stream error and every
  consumer, stopping early or not, each emitted event with \<open>partial = true\<close> has an
  unset finish reason and each emitted event with a set finish reason has
  \<open>partial = false\<close> and \<open>turn_complete = true\<close>. Such an event need not be the
  last one, nor the only one.
\<close>

theorem generateStream_partial_terminal:
  "\<forall>ev \<in> set (generateStream (recording continue) chunks streamErr []). flagsAgree ev"
proof -
  have loop: "\<forall>ev \<in> set (fst (streamLoop (recording continue) chunks [])). flagsAgree ev"
  proof (rule streamLoop_recording)
    show "\<forall>ev \<in> set []. flagsAgree ev" by simp
  next
    fix chunk resp
    assume "convertChunk chunk = Some resp"
    then show "flagsAgree (Inr resp)" by (rule convertChunk_flagsAgree)
  qed
  obtain s' finished where sl: "streamLoop (recording continue) chunks [] = (s', finished)"
    by (cases "streamLoop (recording continue) chunks []") auto
  with loop have s': "\<forall>ev \<in> set s'. flagsAgree ev" by simp
  show ?thesis
  proof (cases "finished \<and> streamErr \<noteq> None")
    case False
    then have "generateStream (recording continue) chunks streamErr [] = s'"
      using sl by (auto simp: generateStream_def)
    with s' show ?thesis by simp
  next
    case True
    then obtain err where "streamErr = Some err" by auto
    with True sl have "generateStream (recording continue) chunks streamErr []
        = s' @ [Inl (''failed to generate stream content: '' @ err)]"
      by (simp add: generateStream_def recording_def)
    moreover have "flagsAgree (Inl (''failed to generate stream content: '' @ err))"
      by (simp add: flagsAgree_def)
    ultimately show ?thesis using s' by simp
  qed
qed

theorem generateStream_partial_terminal_witness:
  "length (generateStream (recording always)
        [\<lparr>Choices = [\<lparr>DeltaContent = ''Hel'', ChoiceFinishReason = ''''\<rparr>],
           Usage = \<lparr>PromptTokens = 0, CompletionTokens = 0, TotalTokens = 0, ReasoningTokens = 0\<rparr>,
           UsageValid = False\<rparr>,
         \<lparr>Choices = [\<lparr>DeltaContent = ''lo'', ChoiceFinishReason = ''stop''\<rparr>],
           Usage = \<lparr>PromptTokens = 5, CompletionTokens = 2, TotalTokens = 7, ReasoningTokens = 0\<rparr>,
           UsageValid = True\<rparr>]
        (Some ''connection reset'') []) = 3
   \<and> list_all flagsAgree (generateStream (recording always)
        [\<lparr>Choices = [\<lparr>DeltaContent = ''Hel'', ChoiceFinishReason = ''''\<rparr>],
           Usage = \<lparr>PromptTokens = 0, CompletionTokens = 0, TotalTokens = 0, ReasoningTokens = 0\<rparr>,
           UsageValid = False\<rparr>,
         \<lparr>Choices = [\<lparr>DeltaContent = ''lo'', ChoiceFinishReason = ''stop''\<rparr>],
           Usage = \<lparr>PromptTokens = 5, CompletionTokens = 2, TotalTokens = 7, ReasoningTokens = 0\<rparr>,
           UsageValid = True\<rparr>]
        (Some ''connection reset'') [])"
proof -
  let ?chunks = "[\<lparr>Choices = [\<lparr>DeltaContent = ''Hel'', ChoiceFinishReason = ''''\<rparr>],
           Usage = \<lparr>PromptTokens = 0, CompletionTokens = 0, TotalTokens = 0, ReasoningTokens = 0\<rparr>,
           UsageValid = False\<rparr>,
         \<lparr>Choices = [\<lparr>DeltaContent = ''lo'', ChoiceFinishReason = ''stop''\<rparr>],
           Usage = \<lparr>PromptTokens = 5, CompletionTokens = 2, TotalTokens = 7, ReasoningTokens = 0\<rparr>,
           UsageValid = True\<rparr>]"
  have "length (generateStream (recording always) ?chunks (Some ''connection reset'') []) = 3"
    by (simp add: generateStream_def recording_def always_def convertChunk_def Let_def)
  moreover have "list_all flagsAgree
                   (generateStream (recording always) ?chunks (Some ''connection reset'') [])"
    using generateStream_partial_terminal[of always ?chunks "Some ''connection reset''"]
    by (simp only: list_all_iff)
  ultimately show ?thesis by simp
qed

text \<open>
  C4, as stated, fails on the stream of three chunks: a text delta, a text delta with
  the finish reason \<open>length\<close>, and a chunk without choices that carries the usage.
  The event with the finish reason is the second of three; the last event has none.
\<close>

theorem finish_reason_event_not_last:
  "map (map_sum id FinishReason)
     (generateStream (recording always)
        [\<lparr>Choices = [\<lparr>DeltaContent = ''Hel'', ChoiceFinishReason = ''''\<rparr>],
           Usage = \<lparr>PromptTokens = 0, CompletionTokens = 0, TotalTokens = 0, ReasoningTokens = 0\<rparr>,
           UsageValid = False\<rparr>,
         \<lparr>Choices = [\<lparr>DeltaContent = ''lo'', ChoiceFinishReason = ''length''\<rparr>],
           Usage = \<lparr>PromptTokens = 0, CompletionTokens = 0, TotalTokens = 0, ReasoningTokens = 0\<rparr>,
           UsageValid = False\<rparr>,
         \<lparr>Choices = [],
           Usage = \<lparr>PromptTokens = 5, CompletionTokens = 2, TotalTokens = 7, ReasoningTokens = 0\<rparr>,
           UsageValid = True\<rparr>]
        None [])
   = [Inr '''', Inr ''MAX_TOKENS'', Inr '''']"
  by (simp add: generateStream_def recording_def always_def convertChunk_def emptyResponse_def
        finishReason_def FinishReasonMaxTokens_def Let_def)

section \<open>Artifact loader: properties\<close>

lemma goroutine_ok:
  "i < length names \<Longrightarrow> Load (names ! i) = Inr part \<Longrightarrow>
     goroutine Load names i g = g\<lparr>results := (results g)[i := Some (artifactTurn (names ! i) part)]\<rparr>"
  by (simp add: goroutine_def loadIndividualArtifact_def artifactTurn_def RoleUser_def)

lemma goroutine_fail:
  "i < length names \<Longrightarrow> Load (names ! i) = Inl e \<Longrightarrow>
     goroutine Load names i g =
       (case groupErr g of
          None \<Rightarrow> g\<lparr>groupErr := Some (loadError (names ! i) e)\<rparr>
        | Some _ \<Rightarrow> g)"
  by (cases "groupErr g") (simp_all add: goroutine_def loadIndividualArtifact_def loadError_def)

lemma goroutine_out_of_range:
  "\<not> i < length names \<Longrightarrow> goroutine Load names i g = g"
  by (simp add: goroutine_def)

lemma fold_goroutine_success:
  assumes "\<forall>n \<in> set names. Load n = Inr (part n)"
    and "length (results g) = length names"
  shows "groupErr (fold (goroutine Load names) sched g) = groupErr g
         \<and> length (results (fold (goroutine Load names) sched g)) = length names
         \<and> (\<forall>i < length names.
               results (fold (goroutine Load names) sched g) ! i =
                 (if i \<in> set sched then Some (artifactTurn (names ! i) (part (names ! i)))
                  else results g ! i))"
  using assms(2)
proof (induction sched arbitrary: g)
  case Nil
  then show ?case by simp
next
  case (Cons j sched)
  show ?case
  proof (cases "j < length names")
    case False
    then have "goroutine Load names j g = g" by (rule goroutine_out_of_range)
    with Cons.IH[OF Cons.prems] False show ?thesis by auto
  next
    case True
    with assms(1) have "Load (names ! j) = Inr (part (names ! j))" by simp
    with True
    have step: "goroutine Load names j g =
                  g\<lparr>results := (results g)[j := Some (artifactTurn (names ! j) (part (names ! j)))]\<rparr>"
      by (rule goroutine_ok)
    let ?g1 = "g\<lparr>results := (results g)[j := Some (artifactTurn (names ! j) (part (names ! j)))]\<rparr>"
    have len: "length (results ?g1) = length names" using Cons.prems by simp
    from Cons.IH[OF len] step True Cons.prems show ?thesis
      by (auto simp: nth_list_update)
  qed
qed

lemma groupWait_success:
  assumes "\<forall>n \<in> set names. Load n = Inr (part n)"
    and "set sched = {0..<length names}"
  shows "groupErr (groupWait Load names sched) = None"
    and "results (groupWait Load names sched) = map (\<lambda>n. Some (artifactTurn n (part n))) names"
proof -
  let ?g0 = "\<lparr>results = replicate (length names) None, groupErr = None\<rparr>"
  have len0: "length (results ?g0) = length names" by simp
  note f = fold_goroutine_success[OF assms(1) len0, of sched]
  from f show "groupErr (groupWait Load names sched) = None"
    by (simp add: groupWait_def)
  show "results (groupWait Load names sched) = map (\<lambda>n. Some (artifactTurn n (part n))) names"
  proof (rule nth_equalityI)
    show "length (results (groupWait Load names sched))
            = length (map (\<lambda>n. Some (artifactTurn n (part n))) names)"
      using f by (simp add: groupWait_def)
  next
    fix i assume "i < length (results (groupWait Load names sched))"
    then have i: "i < length names" using f by (simp add: groupWait_def)
    with assms(2) have "i \<in> set sched" by simp
    with f i show "results (groupWait Load names sched) ! i
                    = map (\<lambda>n. Some (artifactTurn n (part n))) names ! i"
      by (simp add: groupWait_def)
  qed
qed

lemma fold_goroutine_groupErr_Some:
  "groupErr g = Some e \<Longrightarrow> groupErr (fold (goroutine Load names) sched g) = Some e"
proof (induction sched arbitrary: g)
  case Nil
  then show ?case by simp
next
  case (Cons j sched)
  have "groupErr (goroutine Load names j g) = Some e"
    using Cons.prems
    by (auto simp: goroutine_def split: sum.splits)
  from Cons.IH[OF this] show ?case by simp
qed

lemma fold_goroutine_first_failure:
  assumes "find (\<lambda>i. isl (Load (names ! i))) sched = Some i"
    and "Load (names ! i) = Inl e"
    and "set sched \<subseteq> {0..<length names}"
    and "groupErr g = None"
  shows "groupErr (fold (goroutine Load names) sched g) = Some (loadError (names ! i) e)"
  using assms(1,3,4)
proof (induction sched arbitrary: g)
  case Nil
  then show ?case by simp
next
  case (Cons j sched)
  from Cons.prems(2) have j: "j < length names" by simp
  show ?case
  proof (cases "isl (Load (names ! j))")
    case True
    with Cons.prems(1) have "i = j" by simp
    with assms(2) j Cons.prems(3)
    have "groupErr (goroutine Load names j g) = Some (loadError (names ! i) e)"
      by (simp add: goroutine_fail)
    from fold_goroutine_groupErr_Some[OF this] show ?thesis by simp
  next
    case False
    then obtain part where "Load (names ! j) = Inr part" by (cases "Load (names ! j)") auto
    with j have "goroutine Load names j g =
                   g\<lparr>results := (results g)[j := Some (artifactTurn (names ! j) part)]\<rparr>"
      by (rule goroutine_ok)
    with Cons.prems(3)
    have none: "groupErr (goroutine Load names j g) = None" by simp
    from False Cons.prems(1) have "find (\<lambda>i. isl (Load (names ! i))) sched = Some i" by simp
    from Cons.IH[OF this _ none] Cons.prems(2) show ?thesis by simp
  qed
qed

lemma groupWait_failure:
  assumes "find (\<lambda>i. isl (Load (names ! i))) sched = Some i"
    and "Load (names ! i) = Inl e"
    and "set sched \<subseteq> {0..<length names}"
  shows "groupErr (groupWait Load names sched) = Some (loadError (names ! i) e)"
  unfolding groupWait_def
  by (rule fold_goroutine_first_failure[OF assms]) simp

lemma first_failure_exists:
  assumes "\<exists>n \<in> set names. isl (Load n)"
    and "set sched = {0..<length names}"
  shows "\<exists>i e. i < length names \<and> find (\<lambda>i. isl (Load (names ! i))) sched = Some i
               \<and> Load (names ! i) = Inl e"
proof -
  from assms(1) obtain k where k: "k < length names" "isl (Load (names ! k))"
    by (auto simp: in_set_conv_nth)
  with assms(2) have "k \<in> set sched" by simp
  with k(2) have "find (\<lambda>i. isl (Load (names ! i))) sched \<noteq> None"
    by (auto simp: find_None_iff)
  then obtain i where i: "find (\<lambda>i. isl (Load (names ! i))) sched = Some i" by auto
  then have "i \<in> set sched" and "isl (Load (names ! i))"
    by (auto simp: find_Some_iff)
  with assms(2) i show ?thesis
    by (cases "Load (names ! i)") auto
qed

lemma processLoadArtifactsFunctionCall_fires:
  assumes "Contents req \<noteq> []"
    and "last (Contents req) = Some lastContent"
    and "Parts lastContent = Some firstPart # rest"
    and "FunctionResponse firstPart = Some functionResponse"
    and "Name functionResponse = ''load_artifacts''"
    and "Response functionResponse ''artifact_names'' = Some (AnyStrings names)"
    and "names \<noteq> []"
  shows "processLoadArtifactsFunctionCall Load sched req =
           (case groupErr (groupWait Load names sched) of
              Some err \<Rightarrow> Return (Some err, req)
            | None \<Rightarrow>
                Return (None, req\<lparr>Contents := Contents req
                                     @ results (groupWait Load names sched)\<rparr>))"
  using assms by (simp add: processLoadArtifactsFunctionCall_def Let_def)

lemma processLoadArtifactsFunctionCall_no_part:
  assumes "mostRecentFirstPart req = None"
  shows "processLoadArtifactsFunctionCall Load schedule req = Return (None, req)"
proof (cases "Contents req = []")
  case True
  then show ?thesis by (simp add: processLoadArtifactsFunctionCall_def)
next
  case False
  show ?thesis
  proof (cases "last (Contents req)")
    case None
    with False show ?thesis by (simp add: processLoadArtifactsFunctionCall_def)
  next
    case (Some c)
    with False assms have "Parts c = []"
      by (simp add: mostRecentFirstPart_def split: list.splits)
    with False Some show ?thesis by (simp add: processLoadArtifactsFunctionCall_def)
  qed
qed

lemma processLoadArtifactsFunctionCall_part:
  assumes "mostRecentFirstPart req = Some (Some p)"
  shows "processLoadArtifactsFunctionCall Load schedule req =
           (case artifactNamesOf p of
              None \<Rightarrow> Return (None, req)
            | Some artifactNamesRaw \<Rightarrow>
                (case artifactNamesRaw of
                   AnyStrings artifactNames \<Rightarrow>
                     if length artifactNames = 0 then Return (None, req)
                     else
                      (let g = groupWait Load artifactNames schedule
                       in case groupErr g of
                            Some err \<Rightarrow> Return (Some err, req)
                          | None \<Rightarrow>
                              Return (None, req\<lparr>Contents := Contents req @ results g\<rparr>))
                 | _ \<Rightarrow>
                     Return (Some (''invalid artifact names type: ''
                                   @ goTypeName artifactNamesRaw
                                   @ '', expected []string''), req)))"
proof -
  from assms have ne: "Contents req \<noteq> []"
    by (auto simp: mostRecentFirstPart_def)
  with assms obtain c where c: "last (Contents req) = Some c"
    by (cases "last (Contents req)") (auto simp: mostRecentFirstPart_def)
  with assms ne obtain rest where parts: "Parts c = Some p # rest"
    by (cases "Parts c") (auto simp: mostRecentFirstPart_def)
  show ?thesis
  proof (cases "FunctionResponse p")
    case None
    with ne c parts show ?thesis
      by (simp add: processLoadArtifactsFunctionCall_def artifactNamesOf_def)
  next
    case (Some fr)
    with ne c parts show ?thesis
      by (cases "Name fr = ''load_artifacts''")
         (simp_all add: processLoadArtifactsFunctionCall_def artifactNamesOf_def)
  qed
qed

text \<open>
  C5. When the detector fires with the requested names and the tasks complete in any
  order (the schedule is a permutation of the task indices): if every load succeeds,
  one synthetic user turn per name is appended, in the order of the names, each with the
  label and the content Part of that artifact; if some load fails, the request is left
  as it was and the error returned is the wrapped error of the task that failed first.
\<close>

theorem processLoadArtifactsFunctionCall_fan_out:
  assumes "Contents req \<noteq> []"
    and "last (Contents req) = Some lastContent"
    and "Parts lastContent = Some firstPart # rest"
    and "FunctionResponse firstPart = Some functionResponse"
    and "Name functionResponse = ''load_artifacts''"
    and "Response functionResponse ''artifact_names'' = Some (AnyStrings names)"
    and "names \<noteq> []"
    and "distinct schedule"
    and "set schedule = {0..<length names}"
  shows "((\<forall>n \<in> set names. Load n = Inr (part n)) \<longrightarrow>
            processLoadArtifactsFunctionCall Load schedule req =
              Return (None, req\<lparr>Contents := Contents req
                                   @ map (\<lambda>n. Some (artifactTurn n (part n))) names\<rparr>))
         \<and> ((\<exists>n \<in> set names. isl (Load n)) \<longrightarrow>
              (\<exists>i e. i < length names
                     \<and> find (\<lambda>i. isl (Load (names ! i))) schedule = Some i
                     \<and> Load (names ! i) = Inl e
                     \<and> processLoadArtifactsFunctionCall Load schedule req =
                         Return (Some (loadError (names ! i) e), req)))"
proof (intro conjI impI)
  assume ok: "\<forall>n \<in> set names. Load n = Inr (part n)"
  from groupWait_success[OF ok assms(9)]
       processLoadArtifactsFunctionCall_fires[OF assms(1-7), of Load schedule]
  show "processLoadArtifactsFunctionCall Load schedule req =
          Return (None, req\<lparr>Contents := Contents req
                               @ map (\<lambda>n. Some (artifactTurn n (part n))) names\<rparr>)"
    by simp
next
  assume "\<exists>n \<in> set names. isl (Load n)"
  from first_failure_exists[OF this assms(9)]
  obtain i e where i: "i < length names"
    and f: "find (\<lambda>i. isl (Load (names ! i))) schedule = Some i"
    and e: "Load (names ! i) = Inl e"
    by blast
  have sub: "set schedule \<subseteq> {0..<length names}" using assms(9) by simp
  from groupWait_failure[OF f e sub]
       processLoadArtifactsFunctionCall_fires[OF assms(1-7), of Load schedule]
  have "processLoadArtifactsFunctionCall Load schedule req =
          Return (Some (loadError (names ! i) e), req)"
    by simp
  with i f e show "\<exists>i e. i < length names
                     \<and> find (\<lambda>i. isl (Load (names ! i))) schedule = Some i
                     \<and> Load (names ! i) = Inl e
                     \<and> processLoadArtifactsFunctionCall Load schedule req =
                         Return (Some (loadError (names ! i) e), req)"
    by blast
qed

theorem processLoadArtifactsFunctionCall_fan_out_witness:
  "processLoadArtifactsFunctionCall exampleStore [1, 0, 2]
     (loadArtifactsRequest (AnyStrings [''a'', ''b'', ''c'']))
   = Return (None,
       (loadArtifactsRequest (AnyStrings [''a'', ''b'', ''c'']))
         \<lparr>Contents := Contents (loadArtifactsRequest (AnyStrings [''a'', ''b'', ''c'']))
            @ [Some (artifactTurn ''a'' (Some (NewPartFromText ''content of a''))),
               Some (artifactTurn ''b'' (Some (NewPartFromText ''content of b''))),
               Some (artifactTurn ''c'' (Some (NewPartFromText ''content of c'')))]\<rparr>)
   \<and> processLoadArtifactsFunctionCall exampleStore [1, 0, 2]
     (loadArtifactsRequest (AnyStrings [''missing'', ''b'', ''c'']))
   = Return (Some (loadError ''missing'' ''artifact not found''),
             loadArtifactsRequest (AnyStrings [''missing'', ''b'', ''c'']))"
proof -
  let ?part = "\<lambda>n. Some (NewPartFromText (''content of '' @ n))"
  let ?fr = "\<lambda>names. \<lparr>Name = ''load_artifacts'',
                        Response = [''artifact_names'' \<mapsto> AnyStrings names]\<rparr>"
  let ?first = "\<lambda>names. \<lparr>Text = '''', FunctionCall = None, FunctionResponse = Some (?fr names),
                           InlineData = None\<rparr>"
  let ?last = "\<lambda>names. \<lparr>Parts = [Some (?first names)], Role = ''user''\<rparr>"
  have sched: "distinct [1, 0, 2::nat]" "set [1, 0, 2::nat] = {0..<length [''a'', ''b'', ''c'']}"
    "set [1, 0, 2::nat] = {0..<length [''missing'', ''b'', ''c'']}"
    by auto
  have fires: "Contents (loadArtifactsRequest (AnyStrings names)) \<noteq> []"
    "last (Contents (loadArtifactsRequest (AnyStrings names))) = Some (?last names)"
    "Parts (?last names) = Some (?first names) # []"
    "FunctionResponse (?first names) = Some (?fr names)"
    "Name (?fr names) = ''load_artifacts''"
    "Response (?fr names) ''artifact_names'' = Some (AnyStrings names)" for names
    by (simp_all add: loadArtifactsRequest_def)
  note ok = processLoadArtifactsFunctionCall_fan_out
              [OF fires[of "[''a'', ''b'', ''c'']"] _ sched(1) sched(2),
               of exampleStore ?part]
  note bad = processLoadArtifactsFunctionCall_fan_out
              [OF fires[of "[''missing'', ''b'', ''c'']"] _ sched(1) sched(3),
               of exampleStore ?part]
  have 1: "processLoadArtifactsFunctionCall exampleStore [1, 0, 2]
     (loadArtifactsRequest (AnyStrings [''a'', ''b'', ''c'']))
   = Return (None,
       (loadArtifactsRequest (AnyStrings [''a'', ''b'', ''c'']))
         \<lparr>Contents := Contents (loadArtifactsRequest (AnyStrings [''a'', ''b'', ''c'']))
            @ [Some (artifactTurn ''a'' (Some (NewPartFromText ''content of a''))),
               Some (artifactTurn ''b'' (Some (NewPartFromText ''content of b''))),
               Some (artifactTurn ''c'' (Some (NewPartFromText ''content of c'')))]\<rparr>)"
    using ok by (simp add: exampleStore_def)
  have 2: "processLoadArtifactsFunctionCall exampleStore [1, 0, 2]
     (loadArtifactsRequest (AnyStrings [''missing'', ''b'', ''c'']))
   = Return (Some (loadError ''missing'' ''artifact not found''),
             loadArtifactsRequest (AnyStrings [''missing'', ''b'', ''c'']))"
    using bad by (auto simp add: exampleStore_def)
  from 1 2 show ?thesis by simp
qed

text \<open>
  C6, as amended. When the most recent turn has no first Part, or its first Part is not
  a function result named \<open>load_artifacts\<close> with the key \<open>artifact_names\<close>, the
  detector returns no error and leaves the request as it is. When the key is there with
  a value that is not a \<^verbatim>\<open>[]string\<close>, the detector leaves the request as it is and
  returns the error \<open>invalid artifact names type\<close>. (A nil first Part is outside
  this statement.)
\<close>

theorem processLoadArtifactsFunctionCall_no_op:
  "(mostRecentFirstPart req = None \<longrightarrow>
      processLoadArtifactsFunctionCall Load schedule req = Return (None, req))
   \<and> (\<forall>p. mostRecentFirstPart req = Some (Some p) \<and> artifactNamesOf p = None \<longrightarrow>
      processLoadArtifactsFunctionCall Load schedule req = Return (None, req))
   \<and> (\<forall>p v. mostRecentFirstPart req = Some (Some p) \<and> artifactNamesOf p = Some v
             \<and> (\<forall>names. v \<noteq> AnyStrings names) \<longrightarrow>
      processLoadArtifactsFunctionCall Load schedule req =
        Return (Some (''invalid artifact names type: '' @ goTypeName v
                      @ '', expected []string''), req))"
proof (intro conjI allI impI)
  assume "mostRecentFirstPart req = None"
  then show "processLoadArtifactsFunctionCall Load schedule req = Return (None, req)"
    by (rule processLoadArtifactsFunctionCall_no_part)
next
  fix p
  assume "mostRecentFirstPart req = Some (Some p) \<and> artifactNamesOf p = None"
  then show "processLoadArtifactsFunctionCall Load schedule req = Return (None, req)"
    by (simp add: processLoadArtifactsFunctionCall_part)
next
  fix p v
  assume a: "mostRecentFirstPart req = Some (Some p) \<and> artifactNamesOf p = Some v
             \<and> (\<forall>names. v \<noteq> AnyStrings names)"
  then show "processLoadArtifactsFunctionCall Load schedule req =
        Return (Some (''invalid artifact names type: '' @ goTypeName v
                      @ '', expected []string''), req)"
    by (cases v) (simp_all add: processLoadArtifactsFunctionCall_part)
qed

theorem processLoadArtifactsFunctionCall_no_op_witness:
  "processLoadArtifactsFunctionCall exampleStore [0]
     \<lparr>Model = ''gpt'', Contents = [], Config = None\<rparr>
   = Return (None, \<lparr>Model = ''gpt'', Contents = [], Config = None\<rparr>)
   \<and> processLoadArtifactsFunctionCall exampleStore [0]
     \<lparr>Model = ''gpt'', Contents = [Some (NewContentFromText ''hello'' ''user'')], Config = None\<rparr>
   = Return (None,
       \<lparr>Model = ''gpt'', Contents = [Some (NewContentFromText ''hello'' ''user'')], Config = None\<rparr>)
   \<and> processLoadArtifactsFunctionCall exampleStore [0]
     (loadArtifactsRequest (AnyString ''report.txt''))
   = Return (Some ''invalid artifact names type: string, expected []string'',
             loadArtifactsRequest (AnyString ''report.txt''))"
  using processLoadArtifactsFunctionCall_no_op
          [of "\<lparr>Model = ''gpt'', Contents = [], Config = None\<rparr>" exampleStore "[0]"]
        processLoadArtifactsFunctionCall_no_op
          [of "\<lparr>Model = ''gpt'', Contents = [Some (NewContentFromText ''hello'' ''user'')],
                Config = None\<rparr>" exampleStore "[0]"]
        processLoadArtifactsFunctionCall_no_op
          [of "loadArtifactsRequest (AnyString ''report.txt'')" exampleStore "[0]"]
  by (simp add: mostRecentFirstPart_def artifactNamesOf_def loadArtifactsRequest_def
        NewContentFromText_def NewPartFromText_def)

text \<open>
  C6, as stated, fails: with \<open>artifact_names\<close> holding a \<^verbatim>\<open>[]any\<close> the detector
  returns an error.
\<close>

theorem wrong_type_artifact_names_is_an_error:
  "processLoadArtifactsFunctionCall exampleStore [0]
     (loadArtifactsRequest (AnySlice [AnyString ''report.txt'']))
   = Return (Some ''invalid artifact names type: []interface {}, expected []string'',
             loadArtifactsRequest (AnySlice [AnyString ''report.txt'']))"
  by (simp add: processLoadArtifactsFunctionCall_def loadArtifactsRequest_def)

section \<open>Function tool: properties\<close>

text \<open>
  C7. When the arguments are a mapping that converts to the typed input: an output that
  converts to a mapping is returned as that mapping; an output that does not convert but
  validates against the output schema is returned as the mapping with the single key
  \<open>result\<close>; an output that does neither makes the call fail with the error of the
  conversion.
\<close>

theorem functionTool_Run_output:
  assumes "convertInput f m = Inr input"
  shows "(\<forall>resp. convertOutput f (handler f ctx input) = Inr resp \<longrightarrow>
            functionTool_Run f ctx (AnyMap m) = Inr resp)
         \<and> (\<forall>err validate.
              convertOutput f (handler f ctx input) = Inl err
              \<and> outputSchema f = Some validate
              \<and> validate (handler f ctx input) = None \<longrightarrow>
              functionTool_Run f ctx (AnyMap m) = Inr [''result'' \<mapsto> handler f ctx input])
         \<and> (\<forall>err validate err1.
              convertOutput f (handler f ctx input) = Inl err
              \<and> outputSchema f = Some validate
              \<and> validate (handler f ctx input) = Some err1 \<longrightarrow>
              functionTool_Run f ctx (AnyMap m) = Inl err)"
  using assms by (simp add: functionTool_Run_def Let_def)

theorem functionTool_Run_output_witness:
  "functionTool_Run exampleTool () (AnyMap [''value'' \<mapsto> AnyMap [''sum'' \<mapsto> AnyInt 3]])
     = Inr [''sum'' \<mapsto> AnyInt 3]
   \<and> functionTool_Run exampleTool () (AnyMap [''value'' \<mapsto> AnyInt 3])
     = Inr [''result'' \<mapsto> AnyInt 3]
   \<and> functionTool_Run exampleTool () (AnyMap [''value'' \<mapsto> AnyString ''three''])
     = Inl ''cannot convert the output to a mapping''"
proof -
  have c: "convertInput exampleTool m = Inr (AnyMap m)" for m
    by (simp add: exampleTool_def)
  show ?thesis
    using functionTool_Run_output
            [OF c [of "[''value'' \<mapsto> AnyMap [''sum'' \<mapsto> AnyInt 3]]"], where ctx = "()"]
          functionTool_Run_output [OF c [of "[''value'' \<mapsto> AnyInt 3]"], where ctx = "()"]
          functionTool_Run_output
            [OF c [of "[''value'' \<mapsto> AnyString ''three'']"], where ctx = "()"]
    by (simp add: exampleTool_def exampleHandler_def exampleConvertOutput_def
          exampleValidate_def)
qed

section \<open>Remote-protocol tool: properties\<close>

lemma writeTexts_empty:
  "(\<forall>t. TextContent t \<in> set cs \<longrightarrow> t = '''') \<Longrightarrow> writeTexts cs [] = []"
proof (induction cs)
  case Nil
  then show ?case by simp
next
  case (Cons c cs)
  then show ?case by (cases c) auto
qed

text \<open>
  C9, as amended. A successful response without structured content and whose text
  fragments, if it has any, are all empty makes the call fail with the error
  \<open>no text content in tool response\<close>; no result mapping is returned.
\<close>

theorem mcpTool_Run_empty_success:
  assumes "getSessionFunc t ctx = Inr session"
    and "CallTool t session ctx (name t) args = Inr res"
    and "\<not> IsError res"
    and "StructuredContent res = AnyNil"
    and "\<forall>txt. TextContent txt \<in> set (ResultContent res) \<longrightarrow> txt = ''''"
  shows "mcpTool_Run t ctx args = Inl ''no text content in tool response''"
  using assms(1-4) writeTexts_empty[OF assms(5)]
  by (simp add: mcpTool_Run_def)

theorem mcpTool_Run_empty_success_witness:
  "mcpTool_Run
     (remoteTool \<lparr>IsError = False, ResultContent = [ImageContent, TextContent ''''],
                  StructuredContent = AnyNil\<rparr>)
     () (AnyMap Map.empty)
   = Inl ''no text content in tool response''"
proof -
  let ?res = "\<lparr>IsError = False, ResultContent = [ImageContent, TextContent ''''],
               StructuredContent = AnyNil\<rparr>"
  have "getSessionFunc (remoteTool ?res) () = Inr ()"
    and "CallTool (remoteTool ?res) () () (name (remoteTool ?res)) (AnyMap Map.empty) = Inr ?res"
    and "\<not> IsError ?res"
    and "StructuredContent ?res = AnyNil"
    and "\<forall>txt. TextContent txt \<in> set (ResultContent ?res) \<longrightarrow> txt = ''''"
    by (simp_all add: remoteTool_def)
  then show ?thesis by (rule mcpTool_Run_empty_success)
qed

text \<open>
  C9, as stated, fails on the wording of the error: the empty success is reported as
  \<open>no text content in tool response\<close>, not as \<open>no content in tool response\<close>.
\<close>

theorem empty_success_error_message:
  "mcpTool_Run
     (remoteTool \<lparr>IsError = False, ResultContent = [], StructuredContent = AnyNil\<rparr>)
     () (AnyMap Map.empty)
   = Inl ''no text content in tool response''
   \<and> mcpTool_Run
     (remoteTool \<lparr>IsError = False, ResultContent = [], StructuredContent = AnyNil\<rparr>)
     () (AnyMap Map.empty)
   \<noteq> Inl ''no content in tool response''"
  by (simp add: mcpTool_Run_def remoteTool_def)

end
